theory Spec2Isabelle
  imports Main "HOL-Library.AList"
begin

section \<open>Python values, dictionaries and exceptions\<close>

text \<open>
  The serialization core of \<^verbatim>\<open>pyemma/_base/serialization/serialization.py\<close> works on
  dynamically typed Python values. The values that occur in state dictionaries and in the
  tuples of an interpolation map are: \<^verbatim>\<open>None\<close>, integers (Python's \<^verbatim>\<open>bool\<close> is a
  subclass of \<^verbatim>\<open>int\<close>), strings, callables (referred to by an index into a table of
  functions, since a function cannot itself be a field of a first-order value), references
  to objects on the heap, and nested dictionaries (the class-version manifest).
  A dictionary is an association list in insertion order whose keys are distinct.
\<close>

datatype pyval =
    PNone
  | PInt int
  | PStr string
  | PFunc nat
  | PRef nat
  | PDict "(pyval \<times> pyval) list"

type_synonym dict = "(pyval \<times> pyval) list"

datatype exn =
    DeveloperError
  | OldVersionUnsupported
  | ValueError string
  | RuntimeError
  | RecursionError
  | KeyError
  | IndexError
  | TypeError
  | AttributeError
  | AssertionError
  | OtherError string

text \<open>The table of callables: calling a function may raise.\<close>

type_synonym funs = "nat \<Rightarrow> pyval \<Rightarrow> exn + pyval"

text \<open>A dictionary is not hashable, every other value of the model is.\<close>

fun hashable :: "pyval \<Rightarrow> bool" where
  "hashable (PDict d) = False"
| "hashable v = True"

text \<open>Truth value of an object in a boolean context.\<close>

fun truthy :: "pyval \<Rightarrow> bool" where
  "truthy PNone = False"
| "truthy (PInt n) = (n \<noteq> 0)"
| "truthy (PStr s) = (s \<noteq> [])"
| "truthy (PFunc f) = True"
| "truthy (PRef r) = True"
| "truthy (PDict d) = (d \<noteq> [])"

text \<open>\<^verbatim>\<open>d[k]\<close>, \<^verbatim>\<open>d[k] = v\<close> and \<^verbatim>\<open>d.pop(k)\<close>; the caller checks hashability.\<close>

definition dget :: "dict \<Rightarrow> pyval \<Rightarrow> pyval option" where
  "dget d k = map_of d k"

definition dset :: "dict \<Rightarrow> pyval \<Rightarrow> pyval \<Rightarrow> dict" where
  "dset d k v = AList.update k v d"

definition ddel :: "dict \<Rightarrow> pyval \<Rightarrow> dict" where
  "ddel d k = AList.delete k d"

text \<open>\<^verbatim>\<open>d.update(inc)\<close>: the entries of \<^verbatim>\<open>inc\<close> are written in their order.\<close>

definition dupdate :: "dict \<Rightarrow> dict \<Rightarrow> dict" where
  "dupdate d inc = fold (\<lambda>(k, v) acc. dset acc k v) inc d"

section \<open>Interpolation maps\<close>

text \<open>
  \<^verbatim>\<open>_serialize_interpolation_map\<close> is a dictionary from class versions to lists of actions.
  Its keys are integers or, by mistake of the class author, something else (a string here);
  its values are a list or tuple of actions or, by mistake, some other value. An action is a
  tuple of Python values. The map is given by its \<^verbatim>\<open>items()\<close>.
\<close>

datatype mkey = KInt int | KStr string

datatype mval = Actions "pyval list list" | NotSeq pyval

type_synonym imap = "(mkey \<times> mval) list"

fun is_int :: "mkey \<Rightarrow> bool" where
  "is_int (KInt k) = True"
| "is_int (KStr s) = False"

fun int_of :: "mkey \<Rightarrow> int" where
  "int_of (KInt k) = k"
| "int_of (KStr s) = 0"

definition valid_ops :: "pyval list" where
  "valid_ops = [PStr ''set'', PStr ''rm'', PStr ''mv'', PStr ''map'']"

text \<open>
  The inner loop of \<^verbatim>\<open>_validate_interpolation_map\<close>: only \<^verbatim>\<open>action[0]\<close> is looked at
  (an empty tuple raises \<^verbatim>\<open>IndexError\<close>).
\<close>

fun check_action :: "pyval list \<Rightarrow> exn option" where
  "check_action [] = Some IndexError"
| "check_action (verb # rest) = (if verb \<notin> set valid_ops then Some DeveloperError else None)"

fun check_actions :: "pyval list list \<Rightarrow> exn option" where
  "check_actions [] = None"
| "check_actions (a # as) =
     (case check_action a of Some e \<Rightarrow> Some e | None \<Rightarrow> check_actions as)"

text \<open>
  The outer loop over the sorted items; it returns the items with their integer keys.
\<close>

fun check_items :: "imap \<Rightarrow> exn + (int \<times> pyval list list) list" where
  "check_items [] = Inr []"
| "check_items ((k, v) # rest) =
     (if \<not> is_int k then Inl DeveloperError
      else case v of
        NotSeq x \<Rightarrow> Inl DeveloperError
      | Actions as \<Rightarrow>
          (case check_actions as of
             Some e \<Rightarrow> Inl e
           | None \<Rightarrow>
               (case check_items rest of
                  Inl e \<Rightarrow> Inl e
                | Inr r \<Rightarrow> Inr ((int_of k, as) # r))))"

text \<open>
  \<^verbatim>\<open>sorted(klass._serialize_interpolation_map.items())\<close>: the keys of a dictionary are
  distinct, so the items are ordered by key alone. Python 3 refuses to order an integer
  against a string (\<^verbatim>\<open>TypeError\<close>); strings among themselves are ordered, and the first
  of them then fails the \<^verbatim>\<open>is_int\<close> test, whatever the order.
\<close>

definition py_sorted :: "imap \<Rightarrow> exn + imap" where
  "py_sorted m =
     (if list_all (\<lambda>(k, v). is_int k) m then Inr (sort_key (\<lambda>(k, v). int_of k) m)
      else if list_ex (\<lambda>(k, v). is_int k) m then Inl TypeError
      else Inr m)"

text \<open>
  \<^verbatim>\<open>_validate_interpolation_map\<close>. It returns the sorted map that the source binds to
  \<^verbatim>\<open>klass._serialize_interpolation_map\<close> in its last line and that \<^verbatim>\<open>__interpolate\<close>
  iterates over afterwards.
\<close>

definition validate_interpolation_map :: "imap \<Rightarrow> exn + (int \<times> pyval list list) list" where
  "validate_interpolation_map m =
     (case py_sorted m of Inl e \<Rightarrow> Inl e | Inr inter_map \<Rightarrow> check_items inter_map)"

section \<open>Objects and classes\<close>

text \<open>
  An object has a class, the attributes that \<^verbatim>\<open>getattr\<close> finds on it, and the
  name-mangled private attribute \<^verbatim>\<open>__save_data_producer\<close> behind the property
  \<^verbatim>\<open>_save_data_producer\<close> (\<open>None\<close> while it has never been assigned). The heap holds
  an object at every address, so a reference is never dangling.
\<close>

record obj =
  cls :: string
  attrs :: "(string \<times> pyval) list"
  flag :: "bool option"

type_synonym heap = "nat \<Rightarrow> obj"

text \<open>
  A class is identified by its importable name (\<^verbatim>\<open>module.Name\<close>). The record holds what
  attribute lookup on the class object returns (inherited attributes included), \<open>None\<close>
  or \<open>False\<close> where \<^verbatim>\<open>hasattr\<close> is false, and the class's method resolution order.
  The estimator and model methods belong to collaborators outside the serialization core:
  \<^verbatim>\<open>_get_param_names\<close> and \<^verbatim>\<open>_get_model_param_names\<close> are given by the names they
  return, \<^verbatim>\<open>get_model_params\<close> and \<^verbatim>\<open>set_model_params\<close> by functions on the object.
\<close>

record klass =
  mro :: "string list"
  serialize_version :: "int option"
  serialize_fields :: "string list option"
  serialize_interpolation_map :: "imap option"
  get_param_names :: "string list option"
  is_base_estimator :: bool
  has_get_params :: bool
  has_set_params :: bool
  get_model_params :: "(obj \<Rightarrow> exn + dict) option"
  set_model_params :: "(dict \<Rightarrow> obj \<Rightarrow> exn + obj) option"
  get_model_param_names :: "string list option"

type_synonym classes = "string \<Rightarrow> klass"

section \<open>The Interpolator\<close>

text \<open>
  One action of \<^verbatim>\<open>__interpolate\<close> (lines 337 to 357) on the state dictionary, which is
  mutated in place: the result is the dictionary as the action leaves it, and the exception
  raised, if any.
\<close>

fun apply_action :: "funs \<Rightarrow> dict \<Rightarrow> pyval list \<Rightarrow> dict \<times> exn option" where
  "apply_action F state [operation, name, val] =
     (if operation = PStr ''set'' then
        (if hashable name then (dset state name val, None) else (state, Some TypeError))
      else if operation = PStr ''mv'' then
        (if \<not> hashable name then (state, Some TypeError)
         else case dget state name of
           None \<Rightarrow> (state, Some DeveloperError)
         | Some arg \<Rightarrow>
             (if hashable val then (dset (ddel state name) val arg, None)
              else (ddel state name, Some TypeError)))
      else if operation = PStr ''map'' then
        (case val of
           PFunc f \<Rightarrow>
             (if \<not> hashable name then (state, Some TypeError)
              else case dget state name of
                None \<Rightarrow> (state, Some KeyError)
              | Some old \<Rightarrow>
                  (case F f old of
                     Inl e \<Rightarrow> (state, Some e)
                   | Inr new \<Rightarrow> (dset state name new, None)))
         | _ \<Rightarrow> (state, Some AssertionError))
      else (state, None))"
| "apply_action F state [action, val] =
     (if action = PStr ''rm'' then
        (if hashable val then (ddel state val, None) else (state, Some TypeError))
      else (state, None))"
| "apply_action F state a = (state, None)"

text \<open>\<^verbatim>\<open>for a in actions\<close>: an exception ends the loop.\<close>

fun apply_actions :: "funs \<Rightarrow> dict \<Rightarrow> pyval list list \<Rightarrow> dict \<times> exn option" where
  "apply_actions F state [] = (state, None)"
| "apply_actions F state (a # as) =
     (case apply_action F state a of
        (state', None) \<Rightarrow> apply_actions F state' as
      | (state', Some e) \<Rightarrow> (state', Some e))"

text \<open>\<^verbatim>\<open>for key in klass._serialize_interpolation_map.keys()\<close> (lines 326 to 357).\<close>

fun interpolate_keys ::
  "funs \<Rightarrow> int \<Rightarrow> int \<Rightarrow> dict \<Rightarrow> (int \<times> pyval list list) list \<Rightarrow> dict \<times> exn option" where
  "interpolate_keys F cur klass_version state [] = (state, None)"
| "interpolate_keys F cur klass_version state ((key, actions) # rest) =
     (if \<not> (cur > key \<and> key \<ge> klass_version) then
        interpolate_keys F cur klass_version state rest
      else case apply_actions F state actions of
        (state', None) \<Rightarrow> interpolate_keys F cur klass_version state' rest
      | (state', Some e) \<Rightarrow> (state', Some e))"

text \<open>
  The saved version of a class: a value of the manifest, or \<^verbatim>\<open>float('inf')\<close>.
\<close>

datatype version = Infinity | Saved pyval

text \<open>
  \<^verbatim>\<open>state['class_tree_versions'][n]\<close>: a \<^verbatim>\<open>KeyError\<close> of either subscript is caught by
  the caller; subscripting a value that is not a dictionary is a \<^verbatim>\<open>TypeError\<close>.
\<close>

definition lookup_version :: "dict \<Rightarrow> string \<Rightarrow> exn + pyval" where
  "lookup_version state n =
     (case dget state (PStr ''class_tree_versions'') of
        None \<Rightarrow> Inl KeyError
      | Some (PDict versions) \<Rightarrow>
          (case dget versions (PStr n) of None \<Rightarrow> Inl KeyError | Some v \<Rightarrow> Inr v)
      | Some other \<Rightarrow> Inl TypeError)"

fun version_of_names :: "dict \<Rightarrow> string list \<Rightarrow> exn + version" where
  "version_of_names state [] = Inr Infinity"
| "version_of_names state (n # names) =
     (case lookup_version state n of
        Inr v \<Rightarrow> Inr (Saved v)
      | Inl e \<Rightarrow> (if e = KeyError then version_of_names state names else Inl e))"

text \<open>
  \<^verbatim>\<open>_get_version_for_class_from_state\<close>. The class rename registry lives in
  \<^verbatim>\<open>pyemma._base.serialization.util\<close>; its reverse index \<^verbatim>\<open>old_handled_by\<close>, from a
  class to the historical names it handles, is a parameter.
\<close>

definition get_version_for_class_from_state ::
  "(string \<Rightarrow> string list) \<Rightarrow> dict \<Rightarrow> string \<Rightarrow> exn + version" where
  "get_version_for_class_from_state old_handled_by state klass =
     version_of_names state (klass # old_handled_by klass)"

text \<open>\<^verbatim>\<open>__interpolate\<close> (lines 310 to 359).\<close>

definition interpolate ::
  "classes \<Rightarrow> (string \<Rightarrow> string list) \<Rightarrow> funs \<Rightarrow> dict \<Rightarrow> string \<Rightarrow> dict \<times> exn option" where
  "interpolate C old_handled_by F state klass =
     (case serialize_interpolation_map (C klass) of
        None \<Rightarrow> (state, None)
      | Some m \<Rightarrow>
          (case get_version_for_class_from_state old_handled_by state klass of
             Inl e \<Rightarrow> (state, Some e)
           | Inr klass_version \<Rightarrow>
               (case serialize_version (C klass) of
                  None \<Rightarrow> (state, Some AttributeError)
                | Some cur \<Rightarrow>
                    (case klass_version of
                       Infinity \<Rightarrow> (state, None)
                     | Saved (PInt v) \<Rightarrow>
                         (if v > cur then (state, None)
                          else case validate_interpolation_map m of
                            Inl e \<Rightarrow> (state, Some e)
                          | Inr inter_map \<Rightarrow> interpolate_keys F cur v state inter_map)
                     | Saved other \<Rightarrow> (state, Some TypeError)))))"




section \<open>The producer-chain flag\<close>

definition getattr :: "heap \<Rightarrow> nat \<Rightarrow> string \<Rightarrow> pyval option" where
  "getattr h self name = map_of (attrs (h self)) name"

definition setattr :: "heap \<Rightarrow> nat \<Rightarrow> string \<Rightarrow> pyval \<Rightarrow> heap" where
  "setattr h self name v = h(self := (h self)\<lparr>attrs := AList.update name v (attrs (h self))\<rparr>)"

text \<open>
  The getter of the property \<^verbatim>\<open>_save_data_producer\<close> (lines 257 to 263): an object that
  never had the flag gets it, as \<^verbatim>\<open>False\<close>.
\<close>

definition get_save_data_producer :: "heap \<Rightarrow> nat \<Rightarrow> heap \<times> bool" where
  "get_save_data_producer h self =
     (case flag (h self) of
        Some b \<Rightarrow> (h, b)
      | None \<Rightarrow> (h(self := (h self)\<lparr>flag := Some False\<rparr>), False))"

text \<open>
  The setter (lines 265 to 274). It stores the flag first, then forwards it to the data
  producer, whose setter does the same. The first argument is the number of nested calls
  the interpreter still allows: a chain of producers that is longer, or cyclic, ends in
  Python's \<^verbatim>\<open>RecursionError\<close>. A producer that is not an object of the heap (a number,
  a string) belongs to a built-in class, which has no \<^verbatim>\<open>_serialize_version\<close>.
\<close>

fun set_save_data_producer :: "nat \<Rightarrow> classes \<Rightarrow> heap \<Rightarrow> nat \<Rightarrow> bool \<Rightarrow> heap \<times> exn option" where
  "set_save_data_producer 0 C h self val = (h, Some RecursionError)"
| "set_save_data_producer (Suc limit) C h self val =
     (let h' = h(self := (h self)\<lparr>flag := Some val\<rparr>) in
      case getattr h' self ''data_producer'' of
        None \<Rightarrow> (h', None)
      | Some data_producer \<Rightarrow>
          (if val \<and> truthy data_producer \<and> data_producer \<noteq> PRef self then
             (case data_producer of
                PRef p \<Rightarrow>
                  (if serialize_version (C (cls (h' p))) = None then (h', Some RuntimeError)
                   else set_save_data_producer limit C h' p val)
              | _ \<Rightarrow> (h', Some RuntimeError))
           else (h', None)))"

section \<open>Saving\<close>

text \<open>
  \<^verbatim>\<open>save\<close> (lines 67 to 105). The body of its \<^verbatim>\<open>try\<close> block writes the HDF5 group and
  runs jsonpickle's encoder, both outside the serialization core: it is the parameter
  \<open>encode_to_file\<close>, any function that changes the heap and may raise. The
  \<^verbatim>\<open>except\<close> clause logs and raises again; the \<^verbatim>\<open>finally\<close> clause assigns the old
  flag through the setter, and an exception raised there replaces the pending one.
\<close>

definition save ::
  "nat \<Rightarrow> classes \<Rightarrow> (heap \<Rightarrow> heap \<times> exn option) \<Rightarrow> heap \<Rightarrow> nat \<Rightarrow> bool \<Rightarrow> heap \<times> exn option" where
  "save limit C encode_to_file h ob save_streaming_chain =
     (case get_save_data_producer h ob of
        (h0, old_flag) \<Rightarrow>
          (case set_save_data_producer limit C h0 ob save_streaming_chain of
             (h1, Some e) \<Rightarrow> (h1, Some e)
           | (h1, None) \<Rightarrow>
               (case get_save_data_producer h1 ob of
                  (h2, cur) \<Rightarrow>
                    (if cur \<noteq> save_streaming_chain then (h2, Some AssertionError)
                     else case encode_to_file h2 of
                       (h3, r) \<Rightarrow>
                         (case set_save_data_producer limit C h3 ob old_flag of
                            (h4, Some e) \<Rightarrow> (h4, Some e)
                          | (h4, None) \<Rightarrow> (h4, r))))))"

section \<open>Encoding: \<^verbatim>\<open>__getstate__\<close>\<close>

text \<open>Lines 408 to 415: the manifest, one entry for every class of the MRO.\<close>

definition class_tree_versions :: "classes \<Rightarrow> string list \<Rightarrow> dict" where
  "class_tree_versions C cs =
     fold (\<lambda>c versions.
             dset versions (PStr c)
               (PInt (case serialize_version (C c) of Some v \<Rightarrow> v | None \<Rightarrow> - 1)))
          cs []"

text \<open>\<^verbatim>\<open>_get_classes_to_inspect\<close> (lines 498 to 508).\<close>

definition get_classes_to_inspect :: "classes \<Rightarrow> string \<Rightarrow> string list" where
  "get_classes_to_inspect C k =
     filter (\<lambda>c. case serialize_fields (C c) of Some fs \<Rightarrow> fs \<noteq> [] | None \<Rightarrow> False) (mro (C k)) @
     filter (\<lambda>c. get_param_names (C c) \<noteq> None \<and> serialize_version (C c) \<noteq> None) (mro (C k))"

text \<open>\<^verbatim>\<open>_get_state_of_serializeable_fields\<close> (lines 276 to 284).\<close>

definition get_state_of_serializeable_fields :: "classes \<Rightarrow> heap \<Rightarrow> nat \<Rightarrow> string \<Rightarrow> exn + dict" where
  "get_state_of_serializeable_fields C h self klass =
     (case serialize_fields (C klass) of
        None \<Rightarrow> Inl AttributeError
      | Some fs \<Rightarrow>
          Inr (fold (\<lambda>field res.
                       case getattr h self field of
                         Some v \<Rightarrow> dset res (PStr field) v
                       | None \<Rightarrow> res)
                    fs []))"

text \<open>One round of the loop over the classes to inspect (lines 430 to 436).\<close>

definition getstate_class :: "classes \<Rightarrow> heap \<Rightarrow> nat \<Rightarrow> dict \<Rightarrow> string \<Rightarrow> exn + dict" where
  "getstate_class C h self res klass =
     (case get_state_of_serializeable_fields C h self klass of
        Inl e \<Rightarrow> Inl e
      | Inr inc \<Rightarrow>
          (if is_base_estimator (C klass) then
             (case get_param_names (C klass) of
                None \<Rightarrow> Inl AttributeError
              | Some names \<Rightarrow>
                  (let up = map (\<lambda>k. (PStr k, case getattr h self k of Some v \<Rightarrow> v | None \<Rightarrow> PNone))
                                names
                   in Inr (dupdate res (dupdate inc up))))
           else Inr (dupdate res inc)))"

fun getstate_classes :: "classes \<Rightarrow> heap \<Rightarrow> nat \<Rightarrow> dict \<Rightarrow> string list \<Rightarrow> exn + dict" where
  "getstate_classes C h self res [] = Inr res"
| "getstate_classes C h self res (klass # rest) =
     (case getstate_class C h self res klass of
        Inl e \<Rightarrow> Inl e
      | Inr res' \<Rightarrow> getstate_classes C h self res' rest)"

text \<open>Lines 417 to 420: the producer, when the flag is set.\<close>

definition add_data_producer :: "heap \<Rightarrow> nat \<Rightarrow> bool \<Rightarrow> dict \<Rightarrow> exn + dict" where
  "add_data_producer h self fl res =
     (if fl then
        (case getattr h self ''data_producer'' of
           None \<Rightarrow> Inl AssertionError
         | Some data_producer \<Rightarrow> Inr (dset res (PStr ''data_producer'') data_producer))
      else Inr res)"

text \<open>Lines 422 to 424.\<close>

definition add_is_reader :: "heap \<Rightarrow> nat \<Rightarrow> dict \<Rightarrow> dict" where
  "add_is_reader h self res =
     (case getattr h self ''_is_reader'' of
        Some r \<Rightarrow> dset res (PStr ''_is_reader'') r
      | None \<Rightarrow> res)"

text \<open>Lines 438 to 446.\<close>

definition add_estimator :: "classes \<Rightarrow> heap \<Rightarrow> nat \<Rightarrow> dict \<Rightarrow> exn + dict" where
  "add_estimator C h self res =
     (if has_get_params (C (cls (h self))) then
        (case getattr h self ''_estimated'' of
           None \<Rightarrow> Inl AttributeError
         | Some estimated \<Rightarrow>
             (let res' = dset res (PStr ''_estimated'') estimated in
              case getattr h self ''_model'' of
                Some model \<Rightarrow> Inr (dset res' (PStr ''model'') model)
              | None \<Rightarrow> Inr res'))
      else Inr res)"

text \<open>Lines 448 to 451.\<close>

definition add_model_params :: "classes \<Rightarrow> heap \<Rightarrow> nat \<Rightarrow> dict \<Rightarrow> exn + dict" where
  "add_model_params C h self res =
     (case get_model_params (C (cls (h self))) of
        None \<Rightarrow> Inr res
      | Some get \<Rightarrow>
          (case get (h self) of
             Inl e \<Rightarrow> Inl e
           | Inr state \<Rightarrow> Inr (dupdate res state)))"

text \<open>
  The \<^verbatim>\<open>try\<close> block of \<^verbatim>\<open>__getstate__\<close> (lines 401 to 457); \<open>pyemma_version\<close> is
  \<^verbatim>\<open>pyemma.version\<close>. Reading the flag goes through the getter, which may write it.
\<close>

definition getstate_body :: "classes \<Rightarrow> string \<Rightarrow> heap \<Rightarrow> nat \<Rightarrow> heap \<times> (exn + dict)" where
  "getstate_body C pyemma_version h self =
     (let k = cls (h self) in
      if serialize_version (C k) = None then (h, Inl DeveloperError)
      else
        (let res = [(PStr ''class_tree_versions'', PDict (class_tree_versions C (mro (C k))))] in
         case get_save_data_producer h self of
           (h1, fl) \<Rightarrow>
             (case add_data_producer h1 self fl res of
                Inl e \<Rightarrow> (h1, Inl e)
              | Inr res1 \<Rightarrow>
                  (case getstate_classes C h1 self (add_is_reader h1 self res1)
                          (get_classes_to_inspect C k) of
                     Inl e \<Rightarrow> (h1, Inl e)
                   | Inr res2 \<Rightarrow>
                       (case add_estimator C h1 self res2 of
                          Inl e \<Rightarrow> (h1, Inl e)
                        | Inr res3 \<Rightarrow>
                            (case add_model_params C h1 self res3 of
                               Inl e \<Rightarrow> (h1, Inl e)
                             | Inr res4 \<Rightarrow>
                                 (h1, Inr (dset res4 (PStr ''_pyemma_version'')
                                             (PStr pyemma_version)))))))))"

text \<open>
  What the module's logger receives: \<^verbatim>\<open>logger.error('left-overs after setstate: %s', ...)\<close>
  with the state dictionary, and \<^verbatim>\<open>logger.exception('exception during pickling {}')\<close> with
  the instance and the exception being handled.
\<close>

datatype log_entry = LogError dict | LogException nat exn

text \<open>
  \<^verbatim>\<open>__getstate__\<close> (lines 396 to 459): the bare \<^verbatim>\<open>except\<close> clause logs and falls off
  the end of the method, which then returns \<^verbatim>\<open>None\<close>. The last component is the exception
  that leaves the method.
\<close>

definition getstate ::
  "classes \<Rightarrow> string \<Rightarrow> heap \<Rightarrow> nat \<Rightarrow> heap \<times> log_entry list \<times> dict option \<times> exn option" where
  "getstate C pyemma_version h self =
     (case getstate_body C pyemma_version h self of
        (h1, Inr res) \<Rightarrow> (h1, [], Some res, None)
      | (h1, Inl e) \<Rightarrow> (h1, [LogException self e], None, None))"

section \<open>Decoding: \<^verbatim>\<open>__setstate__\<close>\<close>

text \<open>
  \<^verbatim>\<open>for name in names: if name in state: setattr(self, name, state.pop(name))\<close>, the loop
  over the parameter names and over the fields (lines 385 to 391).
\<close>

fun pop_into_attrs :: "heap \<Rightarrow> nat \<Rightarrow> dict \<Rightarrow> string list \<Rightarrow> heap \<times> dict" where
  "pop_into_attrs h self state [] = (h, state)"
| "pop_into_attrs h self state (name # names) =
     (case dget state (PStr name) of
        Some v \<Rightarrow> pop_into_attrs (setattr h self name v) self (ddel state (PStr name)) names
      | None \<Rightarrow> pop_into_attrs h self state names)"

text \<open>\<^verbatim>\<open>_set_state_from_serializeable_fields_and_state\<close> (lines 376 to 394).\<close>

definition set_state_from_serializeable_fields_and_state ::
  "classes \<Rightarrow> (string \<Rightarrow> string list) \<Rightarrow> funs \<Rightarrow> heap \<Rightarrow> nat \<Rightarrow> dict \<Rightarrow> string
   \<Rightarrow> heap \<times> dict \<times> exn option" where
  "set_state_from_serializeable_fields_and_state C old_handled_by F h self state klass =
     (case interpolate C old_handled_by F state klass of
        (state1, Some e) \<Rightarrow> (h, state1, Some e)
      | (state1, None) \<Rightarrow>
          (case (case get_param_names (C klass) of
                   Some names \<Rightarrow> pop_into_attrs h self state1 names
                 | None \<Rightarrow> (h, state1)) of
             (h1, state2) \<Rightarrow>
               (case serialize_fields (C klass) of
                  None \<Rightarrow> (h1, state2, Some AttributeError)
                | Some fs \<Rightarrow>
                    (case pop_into_attrs h1 self state2 fs of
                       (h2, state3) \<Rightarrow> (h2, state3, None)))))"

text \<open>The loop over the classes to inspect (lines 473 and 474).\<close>

fun set_state_classes ::
  "classes \<Rightarrow> (string \<Rightarrow> string list) \<Rightarrow> funs \<Rightarrow> heap \<Rightarrow> nat \<Rightarrow> dict \<Rightarrow> string list
   \<Rightarrow> heap \<times> dict \<times> exn option" where
  "set_state_classes C old_handled_by F h self state [] = (h, state, None)"
| "set_state_classes C old_handled_by F h self state (klass # rest) =
     (case set_state_from_serializeable_fields_and_state C old_handled_by F h self state klass of
        (h1, state1, None) \<Rightarrow> set_state_classes C old_handled_by F h1 self state1 rest
      | (h1, state1, Some e) \<Rightarrow> (h1, state1, Some e))"

text \<open>Lines 467 to 470: the estimator capability.\<close>

definition restore_estimator :: "classes \<Rightarrow> heap \<Rightarrow> nat \<Rightarrow> dict \<Rightarrow> heap \<times> dict \<times> exn option" where
  "restore_estimator C h self state =
     (let k = C (cls (h self)) in
      if has_set_params k \<and> get_param_names k \<noteq> None then
        (case dget state (PStr ''_estimated'') of
           None \<Rightarrow> (h, state, Some KeyError)
         | Some estimated \<Rightarrow>
             (let h1 = setattr h self ''_estimated'' estimated;
                  state1 = ddel state (PStr ''_estimated'');
                  model = (case dget state1 (PStr ''model'') of Some m \<Rightarrow> m | None \<Rightarrow> PNone)
              in (setattr h1 self ''_model'' model, ddel state1 (PStr ''model''), None)))
      else (h, state, None))"

text \<open>
  \<^verbatim>\<open>{key: state.pop(key) for key in names if key in state}\<close> (line 479): the new
  dictionary and what is left of the state.
\<close>

fun pop_collect :: "dict \<Rightarrow> dict \<Rightarrow> string list \<Rightarrow> dict \<times> dict" where
  "pop_collect new_state state [] = (new_state, state)"
| "pop_collect new_state state (key # names) =
     (case dget state (PStr key) of
        Some v \<Rightarrow> pop_collect (dset new_state (PStr key) v) (ddel state (PStr key)) names
      | None \<Rightarrow> pop_collect new_state state names)"

text \<open>Lines 476 to 481: the model capability.\<close>

definition restore_model_params :: "classes \<Rightarrow> heap \<Rightarrow> nat \<Rightarrow> dict \<Rightarrow> heap \<times> dict \<times> exn option" where
  "restore_model_params C h self state =
     (let k = C (cls (h self)) in
      case set_model_params k of
        None \<Rightarrow> (h, state, None)
      | Some set_params \<Rightarrow>
          (case get_model_param_names k of
             None \<Rightarrow> (h, state, None)
           | Some names \<Rightarrow>
               (case pop_collect [] state names of
                  (new_state, state1) \<Rightarrow>
                    (case set_params new_state (h self) of
                       Inl e \<Rightarrow> (h, state1, Some e)
                     | Inr self' \<Rightarrow> (h(self := self'), state1, None)))))"

text \<open>Lines 483 to 490: producer, reader flag, software version, manifest.\<close>

definition restore_rest :: "heap \<Rightarrow> nat \<Rightarrow> dict \<Rightarrow> heap \<times> dict \<times> exn option" where
  "restore_rest h self state =
     (let h1 = (case (getattr h self ''data_producer'', dget state (PStr ''data_producer'')) of
                  (Some old, Some data_producer) \<Rightarrow> setattr h self ''data_producer'' data_producer
                | _ \<Rightarrow> h);
          (h2, state2) = (case dget state (PStr ''_is_reader'') of
                            Some r \<Rightarrow> (setattr h1 self ''_is_reader'' r, ddel state (PStr ''_is_reader''))
                          | None \<Rightarrow> (h1, state));
          h3 = setattr h2 self ''_pyemma_version''
                 (case dget state2 (PStr ''_pyemma_version'') of
                    Some v \<Rightarrow> v
                  | None \<Rightarrow> PStr ''!!!! UNKNOWN !!!!'');
          state3 = ddel state2 (PStr ''_pyemma_version'')
      in case dget state3 (PStr ''class_tree_versions'') of
           None \<Rightarrow> (h3, state3, Some KeyError)
         | Some versions \<Rightarrow> (h3, ddel state3 (PStr ''class_tree_versions''), None))"

text \<open>
  Lines 463 to 490, everything in the \<^verbatim>\<open>try\<close> block before the last assertion. The state
  dictionary is shared and mutated in place, so it is returned with the exception.
\<close>

definition setstate_consume ::
  "classes \<Rightarrow> (string \<Rightarrow> string list) \<Rightarrow> funs \<Rightarrow> heap \<Rightarrow> nat \<Rightarrow> dict \<Rightarrow> heap \<times> dict \<times> exn option" where
  "setstate_consume C old_handled_by F h self state =
     (if state = [] then (h, state, Some AssertionError)
      else
        (let classes_to_inspect = get_classes_to_inspect C (cls (h self)) in
         case restore_estimator C h self state of
           (h1, state1, Some e) \<Rightarrow> (h1, state1, Some e)
         | (h1, state1, None) \<Rightarrow>
             (case set_state_classes C old_handled_by F h1 self state1 classes_to_inspect of
                (h2, state2, Some e) \<Rightarrow> (h2, state2, Some e)
              | (h2, state2, None) \<Rightarrow>
                  (case restore_model_params C h2 self state2 of
                     (h3, state3, Some e) \<Rightarrow> (h3, state3, Some e)
                   | (h3, state3, None) \<Rightarrow> restore_rest h3 self state3))))"

text \<open>The \<^verbatim>\<open>try\<close> block with its last line, \<^verbatim>\<open>assert len(state) == 0\<close>.\<close>

definition setstate_body ::
  "classes \<Rightarrow> (string \<Rightarrow> string list) \<Rightarrow> funs \<Rightarrow> heap \<Rightarrow> nat \<Rightarrow> dict \<Rightarrow> heap \<times> dict \<times> exn option" where
  "setstate_body C old_handled_by F h self state =
     (case setstate_consume C old_handled_by F h self state of
        (h1, state1, Some e) \<Rightarrow> (h1, state1, Some e)
      | (h1, state1, None) \<Rightarrow>
          (if length state1 = 0 then (h1, state1, None) else (h1, state1, Some AssertionError)))"

text \<open>
  \<^verbatim>\<open>__setstate__\<close> (lines 461 to 496) with its two handlers: the heap and the state
  dictionary as the method leaves them, what was logged, and the exception that leaves the
  method. Neither handler raises again.
\<close>

definition setstate ::
  "classes \<Rightarrow> (string \<Rightarrow> string list) \<Rightarrow> funs \<Rightarrow> heap \<Rightarrow> nat \<Rightarrow> dict
   \<Rightarrow> heap \<times> dict \<times> log_entry list \<times> exn option" where
  "setstate C old_handled_by F h self state =
     (case setstate_body C old_handled_by F h self state of
        (h1, state1, None) \<Rightarrow> (h1, state1, [], None)
      | (h1, state1, Some e) \<Rightarrow>
          (if e = AssertionError then (h1, state1, [LogError state1], None)
           else (h1, state1, [LogException self e], None)))"

section \<open>Container I/O: loading\<close>








section \<open>Example data\<close>

text \<open>
  A class \<^verbatim>\<open>pkg.K\<close> at version 3 with fields \<^verbatim>\<open>b\<close> and \<^verbatim>\<open>c\<close>, whose interpolation
  map is written out of order, and a state saved by version 1 of the class.
\<close>

definition object_class :: klass where
  "object_class =
     \<lparr>mro = [''builtins.object''], serialize_version = None, serialize_fields = None,
      serialize_interpolation_map = None, get_param_names = None, is_base_estimator = False,
      has_get_params = False, has_set_params = False, get_model_params = None,
      set_model_params = None, get_model_param_names = None\<rparr>"

definition demo_map :: imap where
  "demo_map =
     [(KInt 2, Actions [[PStr ''set'', PStr ''c'', PInt 3]]),
      (KInt 0, Actions [[PStr ''rm'', PStr ''b'']]),
      (KInt 1, Actions [[PStr ''mv'', PStr ''a'', PStr ''b'']]),
      (KInt 3, Actions [[PStr ''rm'', PStr ''b'']])]"

definition demo_class :: klass where
  "demo_class =
     object_class
       \<lparr>mro := [''pkg.K'', ''builtins.object''], serialize_version := Some 3,
        serialize_fields := Some [''b'', ''c''],
        serialize_interpolation_map := Some demo_map\<rparr>"

definition demo_classes :: classes where
  "demo_classes c = (if c = ''pkg.K'' then demo_class else object_class)"

definition demo_state :: dict where
  "demo_state =
     [(PStr ''class_tree_versions'',
       PDict [(PStr ''pkg.K'', PInt 1), (PStr ''builtins.object'', PInt (- 1))]),
      (PStr ''a'', PInt 5),
      (PStr ''_pyemma_version'', PStr ''2.4'')]"

definition no_old_names :: "string \<Rightarrow> string list" where
  "no_old_names c = []"

definition no_funs :: funs where
  "no_funs f v = Inl TypeError"

text \<open>
  A producer chain: object 0, of class \<^verbatim>\<open>pkg.K\<close>, has object 1 as its data producer,
  whose class \<^verbatim>\<open>pkg.Plain\<close> declares no \<^verbatim>\<open>_serialize_version\<close>.
\<close>

definition plain_class :: klass where
  "plain_class = object_class\<lparr>mro := [''pkg.Plain'', ''builtins.object'']\<rparr>"

definition sub_class :: klass where
  "sub_class = demo_class\<lparr>mro := [''pkg.Sub'', ''pkg.K'', ''builtins.object'']\<rparr>"

definition chain_classes :: classes where
  "chain_classes c =
     (if c = ''pkg.K'' then demo_class
      else if c = ''pkg.Sub'' then sub_class
      else if c = ''pkg.Plain'' then plain_class
      else object_class)"

definition chain_heap :: heap where
  "chain_heap a =
     (if a = 0 then \<lparr>cls = ''pkg.K'', attrs = [(''data_producer'', PRef 1)], flag = Some False\<rparr>
      else \<lparr>cls = ''pkg.Plain'', attrs = [], flag = None\<rparr>)"

text \<open>An encoder that writes nothing and does not fail.\<close>

definition no_encode :: "heap \<Rightarrow> heap \<times> exn option" where
  "no_encode h = (h, None)"




section \<open>Producer chains\<close>

text \<open>
  Within \<open>n\<close> forwarding steps from an object, the setter meets a producer (true in a
  boolean context, and not the object that refers to it) whose class declares no
  \<^verbatim>\<open>_serialize_version\<close>.
\<close>

fun chain_breaks :: "nat \<Rightarrow> classes \<Rightarrow> heap \<Rightarrow> nat \<Rightarrow> bool" where
  "chain_breaks 0 C h self = False"
| "chain_breaks (Suc n) C h self =
     (case getattr h self ''data_producer'' of
        None \<Rightarrow> False
      | Some data_producer \<Rightarrow>
          truthy data_producer \<and> data_producer \<noteq> PRef self \<and>
          (case data_producer of
             PRef p \<Rightarrow> serialize_version (C (cls (h p))) = None \<or> chain_breaks n C h p
           | _ \<Rightarrow> True))"

text \<open>
  The object and the producers the setter forwards the flag to, at most \<open>n\<close> of them.
\<close>

fun chain :: "nat \<Rightarrow> heap \<Rightarrow> nat \<Rightarrow> nat list" where
  "chain 0 h self = []"
| "chain (Suc n) h self =
     self # (case getattr h self ''data_producer'' of
               Some (PRef p) \<Rightarrow> (if p \<noteq> self then chain n h p else [])
             | _ \<Rightarrow> [])"


section \<open>Properties of the Interpolator\<close>

lemma ddel_absent: "dget state name = None \<Longrightarrow> ddel state name = state"
  by (simp add: dget_def ddel_def map_of_eq_None_iff)













text \<open>
  Claim C2. When the manifest of the state has no entry for the class, neither under its
  current name nor under a historical name that the rename registry maps to it, the version
  lookup returns the infinity sentinel, and \<^verbatim>\<open>__interpolate\<close> leaves the state dictionary
  as it is; it returns normally whenever the class declares a version.
\<close>

lemma version_of_names_absent:
  assumes "dget state (PStr ''class_tree_versions'') = Some (PDict versions)"
      and "\<forall>n \<in> set names. dget versions (PStr n) = None"
  shows "version_of_names state names = Inr Infinity"
  using assms by (induction names) (simp_all add: lookup_version_def)

theorem absent_class_skips_interpolation:
  assumes "serialize_interpolation_map (C klass) = Some m"
      and "dget state (PStr ''class_tree_versions'') = Some (PDict versions)"
      and "\<forall>n \<in> set (klass # old_handled_by klass). dget versions (PStr n) = None"
  shows "get_version_for_class_from_state old_handled_by state klass = Inr Infinity
       \<and> fst (interpolate C old_handled_by F state klass) = state
       \<and> (serialize_version (C klass) \<noteq> None \<longrightarrow>
            interpolate C old_handled_by F state klass = (state, None))"
proof -
  have v: "get_version_for_class_from_state old_handled_by state klass = Inr Infinity"
    unfolding get_version_for_class_from_state_def
    using assms(2,3) by (rule version_of_names_absent)
  show ?thesis using v assms(1)
    by (auto simp: interpolate_def split: option.splits)
qed

theorem absent_class_skips_interpolation_witness:
  "get_version_for_class_from_state no_old_names
     [(PStr ''class_tree_versions'', PDict [(PStr ''pkg.Other'', PInt 0)]), (PStr ''a'', PInt 5)]
     ''pkg.K'' = Inr Infinity
   \<and> interpolate demo_classes no_old_names no_funs
       [(PStr ''class_tree_versions'', PDict [(PStr ''pkg.Other'', PInt 0)]), (PStr ''a'', PInt 5)]
       ''pkg.K''
     = ([(PStr ''class_tree_versions'', PDict [(PStr ''pkg.Other'', PInt 0)]), (PStr ''a'', PInt 5)],
        None)"
proof -
  let ?st = "[(PStr ''class_tree_versions'', PDict [(PStr ''pkg.Other'', PInt 0)]),
              (PStr ''a'', PInt 5)]"
  have 1: "serialize_interpolation_map (demo_classes ''pkg.K'') = Some demo_map"
    by (simp add: demo_classes_def demo_class_def)
  have 2: "dget ?st (PStr ''class_tree_versions'') = Some (PDict [(PStr ''pkg.Other'', PInt 0)])"
    by (simp add: dget_def)
  have 3: "\<forall>n \<in> set (''pkg.K'' # no_old_names ''pkg.K'').
             dget [(PStr ''pkg.Other'', PInt 0)] (PStr n) = None"
    by (simp add: dget_def no_old_names_def)
  have 4: "serialize_version (demo_classes ''pkg.K'') \<noteq> None"
    by (simp add: demo_classes_def demo_class_def)
  from absent_class_skips_interpolation
         [where C = demo_classes and klass = "''pkg.K''" and old_handled_by = no_old_names
            and F = no_funs, OF 1 2 3] 4
  show ?thesis by simp
qed

text \<open>
  Claim C8. An \<^verbatim>\<open>mv\<close> action whose source key is not in the state dictionary raises
  \<^verbatim>\<open>DeveloperError\<close> (and ends the loop over the actions, with the state as it was);
  an \<^verbatim>\<open>rm\<close> action whose key is not in the state dictionary raises nothing and leaves
  the state unchanged, and the loop goes on with the next action.
\<close>

theorem mv_missing_raises_rm_missing_noop:
  assumes "hashable name" and "dget state name = None"
  shows "apply_action F state [PStr ''mv'', name, new] = (state, Some DeveloperError)
       \<and> apply_actions F state ([PStr ''mv'', name, new] # rest) = (state, Some DeveloperError)
       \<and> apply_action F state [PStr ''rm'', name] = (state, None)
       \<and> apply_actions F state ([PStr ''rm'', name] # rest) = apply_actions F state rest"
  using assms by (simp add: ddel_absent)

theorem mv_missing_raises_rm_missing_noop_witness:
  "hashable (PStr ''a'') \<and> dget [(PStr ''b'', PInt 1)] (PStr ''a'') = None
   \<and> apply_action no_funs [(PStr ''b'', PInt 1)] [PStr ''mv'', PStr ''a'', PStr ''c'']
       = ([(PStr ''b'', PInt 1)], Some DeveloperError)
   \<and> apply_action no_funs [(PStr ''b'', PInt 1)] [PStr ''rm'', PStr ''a'']
       = ([(PStr ''b'', PInt 1)], None)"
proof -
  have 1: "hashable (PStr ''a'')" by simp
  have 2: "dget [(PStr ''b'', PInt 1)] (PStr ''a'') = None" by (simp add: dget_def)
  from mv_missing_raises_rm_missing_noop[OF 1 2, of no_funs "PStr ''c''" "[]"] 1 2
  show ?thesis by blast
qed

text \<open>
  Claim C10. An action whose verb is one of the valid operations but whose tuple has not the
  length the verb needs (three for \<^verbatim>\<open>set\<close>, \<^verbatim>\<open>mv\<close> and \<^verbatim>\<open>map\<close>, two for
  \<^verbatim>\<open>rm\<close>) passes the validation of the interpolation map, alone or inside a map, and
  is skipped when the actions are applied: no exception, and the state dictionary is as it
  was.
\<close>

lemma apply_action_mismatch:
  assumes "verb \<in> set valid_ops"
      and "(verb = PStr ''rm'' \<and> length args \<noteq> 1) \<or> (verb \<noteq> PStr ''rm'' \<and> length args \<noteq> 2)"
  shows "apply_action F state (verb # args) = (state, None)"
proof (cases args)
  case Nil
  then show ?thesis by simp
next
  case (Cons x xs)
  note c1 = this
  show ?thesis
  proof (cases xs)
    case Nil
    with c1 assms show ?thesis by simp
  next
    case (Cons y ys)
    note c2 = this
    show ?thesis
    proof (cases ys)
      case Nil
      with c1 c2 assms show ?thesis by auto
    next
      case (Cons z zs)
      with c1 c2 show ?thesis by simp
    qed
  qed
qed

theorem arity_mismatch_passes_and_is_skipped:
  assumes "verb \<in> set valid_ops"
      and "(verb = PStr ''rm'' \<and> length args \<noteq> 1) \<or> (verb \<noteq> PStr ''rm'' \<and> length args \<noteq> 2)"
  shows "check_action (verb # args) = None
       \<and> validate_interpolation_map [(KInt k, Actions [verb # args])] = Inr [(k, [verb # args])]
       \<and> apply_action F state (verb # args) = (state, None)"
  using assms apply_action_mismatch[OF assms, of F state]
  by (simp add: validate_interpolation_map_def py_sorted_def)

theorem arity_mismatch_passes_and_is_skipped_witness:
  "check_action [PStr ''set'', PStr ''x''] = None
   \<and> validate_interpolation_map [(KInt 0, Actions [[PStr ''set'', PStr ''x'']])]
       = Inr [(0, [[PStr ''set'', PStr ''x'']])]
   \<and> apply_action no_funs demo_state [PStr ''set'', PStr ''x''] = (demo_state, None)"
proof -
  have 1: "PStr ''set'' \<in> set valid_ops" by (simp add: valid_ops_def)
  have 2: "(PStr ''set'' = PStr ''rm'' \<and> length [PStr ''x''] \<noteq> 1)
           \<or> (PStr ''set'' \<noteq> PStr ''rm'' \<and> length [PStr ''x''] \<noteq> 2)" by simp
  from arity_mismatch_passes_and_is_skipped[OF 1 2, of 0 no_funs demo_state]
  show ?thesis .
qed

section \<open>Properties of the producer-chain flag and of saving\<close>

lemma getattr_flag_upd [simp]:
  "getattr (h(x := (h x)\<lparr>flag := f\<rparr>)) s name = getattr h s name"
  by (simp add: getattr_def)

lemma chain_breaks_flag_upd [simp]:
  "chain_breaks n C (h(x := (h x)\<lparr>flag := f\<rparr>)) s = chain_breaks n C h s"
  by (induction n arbitrary: s) (simp_all split: option.splits pyval.splits)





text \<open>
  Claim C6 fails on the code. The assignment \<^verbatim>\<open>obj._save_data_producer = save_streaming_chain\<close>
  (line 78) stands before the \<^verbatim>\<open>try\<close> statement whose \<^verbatim>\<open>finally\<close> clause restores the
  flag. The setter stores the flag and then raises for a producer without the protocol:
  \<^verbatim>\<open>save\<close> raises, and the flag of the instance, \<^verbatim>\<open>False\<close> before the call, is
  \<^verbatim>\<open>True\<close> after it.
\<close>

theorem save_leaves_flag_set_when_setter_raises:
  "flag (chain_heap 0) = Some False
   \<and> snd (save 10 chain_classes no_encode chain_heap 0 True) = Some RuntimeError
   \<and> flag (fst (save 10 chain_classes no_encode chain_heap 0 True) 0) = Some True"
  by (simp add: save_def get_save_data_producer_def chain_heap_def chain_classes_def
                plain_class_def object_class_def getattr_def eval_nat_numeral Let_def)

section \<open>Properties of loading\<close>



end
